theory Spec2Isabelle
  imports Main
begin

text \<open>
  The moderation commands of \<^verbatim>\<open>src/bot.py\<close> (class \<^verbatim>\<open>GroupManager\<close>) over the table
  \<^verbatim>\<open>users\<close> of its SQLite database, with the chat platform as an environment that
  answers the calls of one handler.
\<close>

section \<open>Role hierarchy\<close>

text \<open>
  \<^verbatim>\<open>str.lower()\<close> on the bytes of a role name. A string is a list of bytes (UTF-8):
  the letters \<open>A\<close> to \<open>Z\<close> go to \<open>a\<close> to \<open>z\<close>, every other byte stays. Python lowers
  code points beyond ASCII too; the result then still holds a code point beyond ASCII, or
  the letter \<open>k\<close> (from the Kelvin sign). No string that the source compares a lowered
  string with (the keys of \<open>role_map\<close>, \<^verbatim>\<open>valid_roles\<close>, \<^verbatim>\<open>"on"\<close>, \<^verbatim>\<open>"off"\<close>) holds
  either, so every such comparison comes out as in the source.
\<close>

definition lower_char :: "char \<Rightarrow> char" where
  "lower_char c =
     (case map_of (zip ''ABCDEFGHIJKLMNOPQRSTUVWXYZ'' ''abcdefghijklmnopqrstuvwxyz'') c of
        Some l \<Rightarrow> l
      | None \<Rightarrow> c)"

definition lower :: "string \<Rightarrow> string" where
  "lower s = map lower_char s"

text \<open>The dictionary literal of \<^verbatim>\<open>get_role_priority\<close>, in the order of the source.\<close>

definition role_map :: "(string \<times> int) list" where
  "role_map =
     [(''owner'', 4), (''creator'', 4), (''superadmin'', 3), (''administrator'', 3),
      (''admin'', 3), (''moderator'', 2), (''member'', 1), (''restricted'', 0)]"

text \<open>\<^verbatim>\<open>return role_map.get(role.lower(), 1)\<close>\<close>

definition get_role_priority :: "string \<Rightarrow> int" where
  "get_role_priority role =
     (case map_of role_map (lower role) of Some p \<Rightarrow> p | None \<Rightarrow> 1)"

section \<open>The table of users\<close>

text \<open>
  Table \<^verbatim>\<open>users\<close> of \<^verbatim>\<open>Database.create_tables\<close>: primary key \<^verbatim>\<open>(user_id, group_id)\<close>,
  the other columns as a record. Timestamps are microseconds since \<^verbatim>\<open>datetime.min\<close>.
  Column \<^verbatim>\<open>warnings\<close> is a 64-bit integer of SQLite; it is an \<open>int\<close> here, the same
  below \<open>2^63 - 1\<close> warnings.
\<close>

type_synonym key = "int \<times> int"

record user_row =
  username :: string
  role :: string
  joined_at :: int
  warnings :: int
  points :: int

type_synonym users = "key \<rightharpoonup> user_row"

text \<open>
  \<^verbatim>\<open>UPDATE users SET ... WHERE user_id=? AND group_id=?\<close>: the row of the key is
  rewritten when there is one; no row is created.
\<close>

definition update_row :: "users \<Rightarrow> key \<Rightarrow> (user_row \<Rightarrow> user_row) \<Rightarrow> users" where
  "update_row db k f = (case db k of None \<Rightarrow> db | Some row \<Rightarrow> db(k \<mapsto> f row))"

text \<open>
  The \<^verbatim>\<open>sqlite3\<close> module binds a Python integer as a signed 64-bit value and raises
  \<^verbatim>\<open>OverflowError\<close> for any other.
\<close>

definition sqlite_int :: "int \<Rightarrow> bool" where
  "sqlite_int i = (- (2 ^ 63) \<le> i \<and> i < 2 ^ 63)"

section \<open>Updates, the platform and what a handler leaves behind\<close>

text \<open>
  What a handler reads of \<^verbatim>\<open>update\<close> and \<^verbatim>\<open>context\<close>, and how the world answers it:
  \<^item> \<open>effective_chat\<close>, \<open>effective_user\<close>: \<^verbatim>\<open>update.effective_chat.id\<close> and
    \<^verbatim>\<open>update.effective_user.id\<close>, ids given by the platform (64-bit);
  \<^item> \<open>args\<close>: \<^verbatim>\<open>context.args\<close>;
  \<^item> \<open>now\<close>: \<^verbatim>\<open>datetime.now()\<close>;
  \<^item> \<open>to_int\<close>: Python's \<^verbatim>\<open>int()\<close> on an argument, \<open>None\<close> for \<^verbatim>\<open>ValueError\<close>;
  \<^item> \<open>get_chat_member n chat user\<close>: the status returned by the \<open>n\<close>-th call of
    \<^verbatim>\<open>context.bot.get_chat_member\<close> in the handler (counted from 0), \<open>None\<close> when it raises;
  \<^item> the other bot calls: \<open>True\<close> when the call returns, \<open>False\<close> when it raises.
    \<open>restrict_chat_member chat user can_send until\<close> carries \<^verbatim>\<open>can_send_messages\<close> and
    \<^verbatim>\<open>until_date\<close>; \<open>set_chat_permissions chat can_send\<close> carries \<^verbatim>\<open>can_send_messages\<close>.
  \<^verbatim>\<open>update.message.reply_text\<close> is taken to deliver its message.
\<close>

record env =
  effective_chat :: int
  effective_user :: int
  args :: "string list"
  now :: int
  to_int :: "string \<Rightarrow> int option"
  get_chat_member :: "nat \<Rightarrow> int \<Rightarrow> int \<Rightarrow> string option"
  ban_chat_member :: "int \<Rightarrow> int \<Rightarrow> bool"
  unban_chat_member :: "int \<Rightarrow> int \<Rightarrow> bool"
  restrict_chat_member :: "int \<Rightarrow> int \<Rightarrow> bool \<Rightarrow> int option \<Rightarrow> bool"
  set_chat_permissions :: "int \<Rightarrow> bool \<Rightarrow> bool"

text \<open>
  The messages of the handlers, one constructor per text of the source:
  \<^item> \<open>AdminRequired\<close>: "Admin privileges required."
  \<^item> \<open>Usage u\<close>: "Usage: u"
  \<^item> \<open>Banned id reason\<close>: "User id banned. Reason: reason"
  \<^item> \<open>FailedBan\<close>: "Failed to ban user: ..."
  \<^item> \<open>Unbanned id\<close>: "User id has been unbanned."
  \<^item> \<open>ErrorUnban\<close>: "Error unbanning user: ..."
  \<^item> \<open>Muted id minutes\<close>: "Muted user id for minutes minutes."
  \<^item> \<open>FailedMute\<close>: "Failed to mute user: ..."
  \<^item> \<open>Unmuted id\<close>: "User id has been unmuted."
  \<^item> \<open>FailedUnmute\<close>: "Failed to unmute user: ..."
  \<^item> \<open>Warned id reason n\<close>: "User id warned. Reason: reason / Total warnings: n"
  \<^item> \<open>AutoBanned id\<close>: "User id has been auto-banned for exceeding warning limit."
  \<^item> \<open>NotInDatabase\<close>: "Cannot warn user who is not in the database."
  \<^item> \<open>InvalidRole\<close>: "Invalid role. Valid roles: owner, administrator, moderator, member."
  \<^item> \<open>CannotPromote\<close>: "Cannot promote to a role >= your own role."
  \<^item> \<open>Promoted id role\<close>: "User id promoted to role."
  \<^item> \<open>UserNotFound\<close>: "User not found in the database."
  \<^item> \<open>CannotDemote\<close>: "You cannot demote a user with a role >= your own."
  \<^item> \<open>Demoted id role\<close>: "User id has been demoted to role."
  \<^item> \<open>LockdownOn\<close>: "Lockdown mode enabled. Non-admins cannot send messages."
  \<^item> \<open>LockdownOff\<close>: "Lockdown mode disabled. Everyone can send messages now."
  \<^item> \<open>LockdownFailed\<close>: "Failed to change lockdown mode."
  \<^item> \<open>UseLockdown\<close>: "Use /lockdown <on/off>"
  Lines written to the log are not part of the outcome.
\<close>

datatype reply =
    AdminRequired
  | Usage string
  | Banned int string
  | FailedBan
  | Unbanned int
  | ErrorUnban
  | Muted int int
  | FailedMute
  | Unmuted int
  | FailedUnmute
  | Warned int string int
  | AutoBanned int
  | NotInDatabase
  | InvalidRole
  | CannotPromote
  | Promoted int string
  | UserNotFound
  | CannotDemote
  | Demoted int string
  | LockdownOn
  | LockdownOff
  | LockdownFailed
  | UseLockdown

text \<open>The bot calls a handler makes, with the arguments it passes.\<close>

datatype call =
    BanChatMember int int
  | UnbanChatMember int int
  | RestrictChatMember int int bool "int option"
  | SetChatPermissions int bool

text \<open>Exceptions that leave a handler (no \<^verbatim>\<open>try\<close> around the raising expression).\<close>

datatype py_error = ValueError | OverflowError

text \<open>
  What one run of a handler leaves: the table, the messages sent in order, the bot calls
  made in order (also those that raised), and the exception that ended it, if any.
\<close>

record outcome =
  store :: users
  replies :: "reply list"
  calls :: "call list"
  raised :: "py_error option"

definition say :: "users \<Rightarrow> reply \<Rightarrow> outcome" where
  "say db r = \<lparr>store = db, replies = [r], calls = [], raised = None\<rparr>"

definition raise :: "users \<Rightarrow> py_error \<Rightarrow> outcome" where
  "raise db err = \<lparr>store = db, replies = [], calls = [], raised = Some err\<rparr>"

text \<open>\<^verbatim>\<open>sep.join(xs)\<close>\<close>

fun join :: "string \<Rightarrow> string list \<Rightarrow> string" where
  "join sep [] = []"
| "join sep [x] = x"
| "join sep (x # y # ys) = x @ sep @ join sep (y # ys)"

text \<open>
  \<^verbatim>\<open>datetime.now() + timedelta(minutes=m)\<close>: a \<^verbatim>\<open>datetime\<close> lies between
  \<^verbatim>\<open>datetime.min\<close> (year 1) and \<^verbatim>\<open>datetime.max\<close> (the last microsecond of year 9999, day
  number 3652059); outside, the \<^verbatim>\<open>timedelta\<close> or the sum raises \<^verbatim>\<open>OverflowError\<close>.
\<close>

definition datetime_max :: int where
  "datetime_max = 3652059 * 86400 * 1000000 - 1"

definition add_minutes :: "int \<Rightarrow> int \<Rightarrow> py_error + int" where
  "add_minutes t m =
     (let r = t + m * 60000000
      in if 0 \<le> r \<and> r \<le> datetime_max then Inr r else Inl OverflowError)"

section \<open>Resolving the actor\<close>

text \<open>
  \<^verbatim>\<open>GroupManager.check_admin\<close>: the status the platform reports for the sender, compared
  with \<^verbatim>\<open>['administrator', 'creator']\<close>; an exception of the call gives \<open>False\<close>.
\<close>

definition check_admin :: "env \<Rightarrow> bool" where
  "check_admin e =
     (case get_chat_member e 0 (effective_chat e) (effective_user e) of
        None \<Rightarrow> False
      | Some status \<Rightarrow> status \<in> set [''administrator'', ''creator''])"

text \<open>
  \<^verbatim>\<open>GroupManager.get_user_role\<close>: the stored role of the sender when the table has a
  row, else the platform's status, else \<^verbatim>\<open>"member"\<close>. In the handlers that call it,
  \<^verbatim>\<open>check_admin\<close> has made call 0, so this is call 1 of \<^verbatim>\<open>get_chat_member\<close>.
\<close>

definition get_user_role :: "env \<Rightarrow> users \<Rightarrow> string" where
  "get_user_role e db =
     (case db (effective_user e, effective_chat e) of
        Some row \<Rightarrow> role row
      | None \<Rightarrow>
          (case get_chat_member e 1 (effective_chat e) (effective_user e) of
             Some status \<Rightarrow> status
           | None \<Rightarrow> ''member''))"

section \<open>The moderation handlers\<close>

text \<open>\<^verbatim>\<open>GroupManager.cmd_ban\<close>. The whole body after the admin check is in a \<^verbatim>\<open>try\<close>.\<close>

definition cmd_ban :: "env \<Rightarrow> users \<Rightarrow> outcome" where
  "cmd_ban e db =
     (if \<not> check_admin e then say db AdminRequired
      else case args e of
        [] \<Rightarrow> say db (Usage ''/ban <user_id> [reason]'')
      | a # rest \<Rightarrow>
          (case to_int e a of
             None \<Rightarrow> say db FailedBan
           | Some user_id \<Rightarrow>
               (let reason = (if rest \<noteq> [] then join '' '' rest else ''No reason given'');
                    chat_id = effective_chat e
                in if ban_chat_member e chat_id user_id
                   then \<lparr>store = db, replies = [Banned user_id reason],
                         calls = [BanChatMember chat_id user_id], raised = None\<rparr>
                   else \<lparr>store = db, replies = [FailedBan],
                         calls = [BanChatMember chat_id user_id], raised = None\<rparr>)))"

text \<open>\<^verbatim>\<open>GroupManager.cmd_unban\<close>. \<^verbatim>\<open>int(context.args[0])\<close> is outside the \<^verbatim>\<open>try\<close>.\<close>

definition cmd_unban :: "env \<Rightarrow> users \<Rightarrow> outcome" where
  "cmd_unban e db =
     (if \<not> check_admin e then say db AdminRequired
      else case args e of
        [] \<Rightarrow> say db (Usage ''/unban <user_id>'')
      | a # rest \<Rightarrow>
          (case to_int e a of
             None \<Rightarrow> raise db ValueError
           | Some user_id \<Rightarrow>
               (let chat_id = effective_chat e
                in if unban_chat_member e chat_id user_id
                   then \<lparr>store = db, replies = [Unbanned user_id],
                         calls = [UnbanChatMember chat_id user_id], raised = None\<rparr>
                   else \<lparr>store = db, replies = [ErrorUnban],
                         calls = [UnbanChatMember chat_id user_id], raised = None\<rparr>)))"

text \<open>
  \<^verbatim>\<open>GroupManager.cmd_mute\<close>. The minutes default to 10; they are not compared with
  anything before \<^verbatim>\<open>until_date\<close> is computed and the platform is called. The table is
  neither read nor written.
\<close>

definition cmd_mute :: "env \<Rightarrow> users \<Rightarrow> outcome" where
  "cmd_mute e db =
     (if \<not> check_admin e then say db AdminRequired
      else case args e of
        [] \<Rightarrow> say db (Usage ''/mute <user_id> [minutes]'')
      | a # rest \<Rightarrow>
          (case to_int e a of
             None \<Rightarrow> raise db ValueError
           | Some user_id \<Rightarrow>
               (case (case rest of [] \<Rightarrow> Some 10 | m # _ \<Rightarrow> to_int e m) of
                  None \<Rightarrow> raise db ValueError
                | Some mute_minutes \<Rightarrow>
                    (case add_minutes (now e) mute_minutes of
                       Inl err \<Rightarrow> raise db err
                     | Inr until_date \<Rightarrow>
                         (let chat_id = effective_chat e
                          in if restrict_chat_member e chat_id user_id False (Some until_date)
                             then \<lparr>store = db, replies = [Muted user_id mute_minutes],
                                   calls = [RestrictChatMember chat_id user_id False
                                              (Some until_date)],
                                   raised = None\<rparr>
                             else \<lparr>store = db, replies = [FailedMute],
                                   calls = [RestrictChatMember chat_id user_id False
                                              (Some until_date)],
                                   raised = None\<rparr>)))))"

text \<open>\<^verbatim>\<open>GroupManager.cmd_unmute\<close>\<close>

definition cmd_unmute :: "env \<Rightarrow> users \<Rightarrow> outcome" where
  "cmd_unmute e db =
     (if \<not> check_admin e then say db AdminRequired
      else case args e of
        [] \<Rightarrow> say db (Usage ''/unmute <user_id>'')
      | a # rest \<Rightarrow>
          (case to_int e a of
             None \<Rightarrow> raise db ValueError
           | Some user_id \<Rightarrow>
               (let chat_id = effective_chat e
                in if restrict_chat_member e chat_id user_id True None
                   then \<lparr>store = db, replies = [Unmuted user_id],
                         calls = [RestrictChatMember chat_id user_id True None],
                         raised = None\<rparr>
                   else \<lparr>store = db, replies = [FailedUnmute],
                         calls = [RestrictChatMember chat_id user_id True None],
                         raised = None\<rparr>)))"

text \<open>
  \<^verbatim>\<open>GroupManager.cmd_warn\<close>: the \<^verbatim>\<open>UPDATE\<close> is committed, then the count is read back;
  the ban is tried at every count of 3 or more, and its exception is only logged.
\<close>

definition cmd_warn :: "env \<Rightarrow> users \<Rightarrow> outcome" where
  "cmd_warn e db =
     (if \<not> check_admin e then say db AdminRequired
      else case args e of
        [] \<Rightarrow> say db (Usage ''/warn <user_id> [reason]'')
      | a # rest \<Rightarrow>
          (case to_int e a of
             None \<Rightarrow> raise db ValueError
           | Some user_id \<Rightarrow>
               (let reason = (if rest \<noteq> [] then join '' '' rest else ''No reason provided'');
                    chat_id = effective_chat e
                in if \<not> sqlite_int user_id then raise db OverflowError
                   else
                     (let db' = update_row db (user_id, chat_id)
                                  (\<lambda>row. row\<lparr>warnings := warnings row + 1\<rparr>)
                      in case db' (user_id, chat_id) of
                           Some row \<Rightarrow>
                             (let warning_count = warnings row
                              in if warning_count \<ge> 3
                                 then
                                   (if ban_chat_member e chat_id user_id
                                    then \<lparr>store = db',
                                          replies = [Warned user_id reason warning_count,
                                                     AutoBanned user_id],
                                          calls = [BanChatMember chat_id user_id],
                                          raised = None\<rparr>
                                    else \<lparr>store = db',
                                          replies = [Warned user_id reason warning_count],
                                          calls = [BanChatMember chat_id user_id],
                                          raised = None\<rparr>)
                                 else \<lparr>store = db',
                                       replies = [Warned user_id reason warning_count],
                                       calls = [], raised = None\<rparr>)
                         | None \<Rightarrow> say db' NotInDatabase))))"

text \<open>\<^verbatim>\<open>GroupManager.cmd_promote\<close>\<close>

definition valid_roles :: "string list" where
  "valid_roles = [''owner'', ''administrator'', ''admin'', ''moderator'', ''member'']"

definition cmd_promote :: "env \<Rightarrow> users \<Rightarrow> outcome" where
  "cmd_promote e db =
     (if \<not> check_admin e then say db AdminRequired
      else if length (args e) < 2 then say db (Usage ''/promote <user_id> <role>'')
      else case to_int e (args e ! 0) of
        None \<Rightarrow> raise db ValueError
      | Some user_id \<Rightarrow>
          (let new_role = lower (args e ! 1)
           in if new_role \<notin> set valid_roles then say db InvalidRole
              else
                (let chat_id = effective_chat e;
                     current_user_role = get_user_role e db
                 in if get_role_priority new_role \<ge> get_role_priority current_user_role
                    then say db CannotPromote
                    else if \<not> sqlite_int user_id then raise db OverflowError
                    else \<lparr>store = update_row db (user_id, chat_id)
                                    (\<lambda>row. row\<lparr>role := new_role\<rparr>),
                          replies = [Promoted user_id new_role],
                          calls = [], raised = None\<rparr>)))"

text \<open>
  \<^verbatim>\<open>GroupManager.cmd_demote\<close>. \<open>role_for\<close> is its \<^verbatim>\<open>for ... else\<close> over the list of
  role names: the first name with the wanted priority, \<^verbatim>\<open>'member'\<close> when the loop ends
  without \<^verbatim>\<open>break\<close>.
\<close>

fun role_for :: "(string \<times> int) list \<Rightarrow> int \<Rightarrow> string" where
  "role_for [] new_priority = ''member''"
| "role_for ((r, p) # rest) new_priority =
     (if p = new_priority then r else role_for rest new_priority)"

definition cmd_demote :: "env \<Rightarrow> users \<Rightarrow> outcome" where
  "cmd_demote e db =
     (if \<not> check_admin e then say db AdminRequired
      else if length (args e) < 1 then say db (Usage ''/demote <user_id>'')
      else case to_int e (args e ! 0) of
        None \<Rightarrow> raise db ValueError
      | Some user_id \<Rightarrow>
          (let chat_id = effective_chat e;
               current_user_role = get_user_role e db
           in if \<not> sqlite_int user_id then raise db OverflowError
              else case db (user_id, chat_id) of
                None \<Rightarrow> say db UserNotFound
              | Some row \<Rightarrow>
                  (let target_role = role row
                   in if get_role_priority target_role \<ge> get_role_priority current_user_role
                      then say db CannotDemote
                      else
                        (let old_priority = get_role_priority target_role;
                             new_priority = old_priority - 1;
                             new_role = role_for [(''owner'', 4), (''administrator'', 3),
                                                  (''moderator'', 2), (''member'', 1)]
                                          new_priority
                         in \<lparr>store = update_row db (user_id, chat_id)
                                        (\<lambda>row. row\<lparr>role := new_role\<rparr>),
                              replies = [Demoted user_id new_role],
                              calls = [], raised = None\<rparr>))))"

text \<open>\<^verbatim>\<open>GroupManager.cmd_lockdown\<close>\<close>

definition cmd_lockdown :: "env \<Rightarrow> users \<Rightarrow> outcome" where
  "cmd_lockdown e db =
     (if \<not> check_admin e then say db AdminRequired
      else case args e of
        [] \<Rightarrow> say db (Usage ''/lockdown <on/off>'')
      | a # rest \<Rightarrow>
          (let mode = lower a; chat_id = effective_chat e
           in if mode = ''on''
              then (if set_chat_permissions e chat_id False
                    then \<lparr>store = db, replies = [LockdownOn],
                          calls = [SetChatPermissions chat_id False], raised = None\<rparr>
                    else \<lparr>store = db, replies = [LockdownFailed],
                          calls = [SetChatPermissions chat_id False], raised = None\<rparr>)
              else if mode = ''off''
              then (if set_chat_permissions e chat_id True
                    then \<lparr>store = db, replies = [LockdownOff],
                          calls = [SetChatPermissions chat_id True], raised = None\<rparr>
                    else \<lparr>store = db, replies = [LockdownFailed],
                          calls = [SetChatPermissions chat_id True], raised = None\<rparr>)
              else say db UseLockdown))"

text \<open>
  The moderation commands of the table in \<^verbatim>\<open>setup_handlers\<close>, each with its handler.
\<close>

datatype command = Ban | Unban | Mute | Unmute | Warn | Promote | Demote | Lockdown

fun handle :: "command \<Rightarrow> env \<Rightarrow> users \<Rightarrow> outcome" where
  "handle Ban = cmd_ban"
| "handle Unban = cmd_unban"
| "handle Mute = cmd_mute"
| "handle Unmute = cmd_unmute"
| "handle Warn = cmd_warn"
| "handle Promote = cmd_promote"
| "handle Demote = cmd_demote"
| "handle Lockdown = cmd_lockdown"

text \<open>
  Warnings one after the other: each update is handled on the table the previous one
  left.
\<close>

fun warn_seq :: "env list \<Rightarrow> users \<Rightarrow> outcome list" where
  "warn_seq [] db = []"
| "warn_seq (e # es) db = (let out = cmd_warn e db in out # warn_seq es (store out))"

text \<open>
  An update that is a warning of \<open>user_id\<close> in group \<open>chat_id\<close> by a sender who passes
  the admin check: \<^verbatim>\<open>/warn <user_id> [reason]\<close> with a first argument that reads as
  \<open>user_id\<close>.
\<close>

definition warns_of :: "int \<Rightarrow> int \<Rightarrow> env \<Rightarrow> bool" where
  "warns_of chat_id user_id e =
     (check_admin e \<and> effective_chat e = chat_id \<and>
      (case args e of [] \<Rightarrow> False | a # rest \<Rightarrow> to_int e a = Some user_id))"

section \<open>The restriction record of the specification\<close>

text \<open>
  \<open>spec_isMuted\<close> follows the words of the specification (RestrictionScheduler): true
  iff a UserMute \<open>(group, user, expiresAt)\<close> exists and \<open>now < expiresAt\<close>. It is read on
  what the program stores. \<^verbatim>\<open>Database.create_tables\<close> has no table and no column for a
  mute or its expiry, and no handler writes one, so \<open>spec_user_mutes\<close>, the UserMute
  records held by a table of users, has none.
\<close>

definition spec_user_mutes :: "users \<Rightarrow> (key \<rightharpoonup> int)" where
  "spec_user_mutes db = Map.empty"

definition spec_isMuted :: "users \<Rightarrow> int \<Rightarrow> int \<Rightarrow> int \<Rightarrow> bool" where
  "spec_isMuted db group_id user_id t =
     (case spec_user_mutes db (user_id, group_id) of
        None \<Rightarrow> False
      | Some expiresAt \<Rightarrow> t < expiresAt)"

section \<open>The roles of the specification and a concrete group\<close>

text \<open>The five roles of the specification's glossary.\<close>

definition five_roles :: "string list" where
  "five_roles = [''owner'', ''administrator'', ''moderator'', ''member'', ''restricted'']"

text \<open>
  For the examples, \<^verbatim>\<open>int()\<close> on an optional minus sign followed by ASCII digits, where
  Python returns the number written; \<open>None\<close> on any other text.
\<close>

definition digit :: "char \<Rightarrow> int option" where
  "digit c = map_of (zip ''0123456789'' [0, 1, 2, 3, 4, 5, 6, 7, 8, 9]) c"

fun digits :: "int \<Rightarrow> string \<Rightarrow> int option" where
  "digits acc [] = Some acc"
| "digits acc (c # cs) =
     (case digit c of None \<Rightarrow> None | Some d \<Rightarrow> digits (10 * acc + d) cs)"

definition decimal :: "string \<Rightarrow> int option" where
  "decimal s =
     (case s of
        [] \<Rightarrow> None
      | c # cs \<Rightarrow>
          if c = CHR ''-'' then (if cs = [] then None else map_option uminus (digits 0 cs))
          else digits 0 s)"

text \<open>
  A group \<open>-1001\<close> in which user 7 sends the command: the platform reports \<open>status\<close> for
  user 7 and raises for anyone else, and every other bot call returns iff \<open>ok\<close>. The table
  has a row for user 7 and a row for user 42.
\<close>

definition request :: "string \<Rightarrow> string list \<Rightarrow> bool \<Rightarrow> env" where
  "request status as ok =
     \<lparr>effective_chat = - 1001, effective_user = 7, args = as,
      now = 63900000000000000, to_int = decimal,
      get_chat_member = (\<lambda>n chat user. if chat = - 1001 \<and> user = 7 then Some status else None),
      ban_chat_member = (\<lambda>chat user. ok),
      unban_chat_member = (\<lambda>chat user. ok),
      restrict_chat_member = (\<lambda>chat user can_send until. ok),
      set_chat_permissions = (\<lambda>chat can_send. ok)\<rparr>"

definition member_row :: "string \<Rightarrow> string \<Rightarrow> int \<Rightarrow> user_row" where
  "member_row name r w =
     \<lparr>username = name, role = r, joined_at = 63800000000000000, warnings = w, points = 0\<rparr>"

definition group :: "string \<Rightarrow> string \<Rightarrow> int \<Rightarrow> users" where
  "group actor_role target_role w =
     [(7, - 1001) \<mapsto> member_row ''ann'' actor_role 0,
      (42, - 1001) \<mapsto> member_row ''bob'' target_role w]"

section \<open>Evaluation and basic facts\<close>

lemmas role_defs = get_role_priority_def role_map_def lower_def lower_char_def valid_roles_def

lemmas example_defs = request_def group_def member_row_def decimal_def digit_def
  check_admin_def get_user_role_def say_def raise_def update_row_def sqlite_int_def
  add_minutes_def datetime_max_def


lemma get_role_priority_ge_0: "0 \<le> get_role_priority r"
  by (simp add: get_role_priority_def role_map_def)

lemma five_roles_lower: "q \<in> set five_roles \<Longrightarrow> lower q = q"
  by (auto simp: five_roles_def lower_def lower_char_def)

lemma five_roles_valid:
  "q \<in> set five_roles \<Longrightarrow> (q \<in> set valid_roles) = (q \<noteq> ''restricted'')"
  by (auto simp: five_roles_def valid_roles_def)

lemma check_admin_iff:
  "check_admin e =
     (get_chat_member e 0 (effective_chat e) (effective_user e)
        \<in> {Some ''administrator'', Some ''creator''})"
  by (auto simp: check_admin_def split: option.splits)

text \<open>One warning, by the two cases of the \<^verbatim>\<open>SELECT\<close> that follows the \<^verbatim>\<open>UPDATE\<close>.\<close>

lemma cmd_warn_absent:
  assumes "check_admin e" and "args e = a # rest" and "to_int e a = Some user_id"
    and "sqlite_int user_id" and "db (user_id, effective_chat e) = None"
  shows "cmd_warn e db = say db NotInDatabase"
  using assms by (simp add: cmd_warn_def Let_def update_row_def)

lemma cmd_warn_present:
  assumes "check_admin e" and "args e = a # rest" and "to_int e a = Some user_id"
    and "sqlite_int user_id" and "db (user_id, effective_chat e) = Some row"
  shows "cmd_warn e db =
     \<lparr>store = db((user_id, effective_chat e) \<mapsto> row\<lparr>warnings := warnings row + 1\<rparr>),
      replies = Warned user_id (if rest \<noteq> [] then join '' '' rest else ''No reason provided'')
                  (warnings row + 1)
                # (if warnings row + 1 \<ge> 3 \<and> ban_chat_member e (effective_chat e) user_id
                   then [AutoBanned user_id] else []),
      calls = (if warnings row + 1 \<ge> 3 then [BanChatMember (effective_chat e) user_id] else []),
      raised = None\<rparr>"
  using assms by (simp add: cmd_warn_def Let_def update_row_def)

text \<open>
  A run of warnings of one user, started at any count: the \<open>i\<close>-th outcome (from 0) holds
  the count raised \<open>i + 1\<close> times and its ban call iff that count is 3 or more.
\<close>

lemma warn_seq_nth:
  assumes "\<forall>e \<in> set es. warns_of chat_id user_id e"
    and "sqlite_int user_id" and "db (user_id, chat_id) = Some row" and "i < length es"
  shows "store (warn_seq es db ! i) (user_id, chat_id)
           = Some (row\<lparr>warnings := warnings row + int i + 1\<rparr>)
       \<and> calls (warn_seq es db ! i)
           = (if warnings row + int i + 1 \<ge> 3 then [BanChatMember chat_id user_id] else [])"
  using assms
proof (induction es arbitrary: db row i)
  case Nil
  then show ?case by simp
next
  case (Cons e es)
  from Cons.prems(1) obtain a rest where e: "check_admin e" "effective_chat e = chat_id"
      "args e = a # rest" "to_int e a = Some user_id"
    by (auto simp: warns_of_def split: list.splits)
  have row: "db (user_id, effective_chat e) = Some row"
    using Cons.prems(3) e(2) by simp
  note step = cmd_warn_present [where db = db, OF e(1) e(3) e(4) Cons.prems(2) row]
  show ?case
  proof (cases i)
    case 0
    then show ?thesis using step e(2) by (simp add: Let_def)
  next
    case (Suc j)
    have next_row: "store (cmd_warn e db) (user_id, chat_id)
        = Some (row\<lparr>warnings := warnings row + 1\<rparr>)"
      using step e(2) by simp
    have rest_ok: "\<forall>e \<in> set es. warns_of chat_id user_id e" and j: "j < length es"
      using Cons.prems(1,4) Suc by simp_all
    note ih = Cons.IH [where db = "store (cmd_warn e db)", OF rest_ok Cons.prems(2) next_row j]
    have count: "warnings row + 1 + int j + 1 = warnings row + int (Suc j) + 1"
      by simp
    show ?thesis using ih Suc by (simp add: Let_def count)
  qed
qed

text \<open>One mute command whose arguments read as integers and whose date exists.\<close>

lemma cmd_mute_run:
  assumes "check_admin e" and "args e = a # rest" and "to_int e a = Some user_id"
    and "(case rest of [] \<Rightarrow> Some 10 | m # _ \<Rightarrow> to_int e m) = Some minutes"
    and "0 \<le> now e + minutes * 60000000" and "now e + minutes * 60000000 \<le> datetime_max"
  shows "cmd_mute e db =
     \<lparr>store = db,
      replies = [if restrict_chat_member e (effective_chat e) user_id False
                      (Some (now e + minutes * 60000000))
                 then Muted user_id minutes else FailedMute],
      calls = [RestrictChatMember (effective_chat e) user_id False
                 (Some (now e + minutes * 60000000))],
      raised = None\<rparr>"
  using assms by (simp add: cmd_mute_def add_minutes_def Let_def)

text \<open>The admin check is the first step of every handler.\<close>

lemma denied_when_not_admin: "\<not> check_admin e \<Longrightarrow> handle c e db = say db AdminRequired"
  by (cases c) (simp_all add: cmd_ban_def cmd_unban_def cmd_mute_def cmd_unmute_def
      cmd_warn_def cmd_promote_def cmd_demote_def cmd_lockdown_def)

lemma cmd_ban_admin: "check_admin e \<Longrightarrow> replies (cmd_ban e db) \<noteq> [AdminRequired]"
  by (simp add: cmd_ban_def say_def raise_def Let_def split: list.splits option.splits)

lemma cmd_unban_admin: "check_admin e \<Longrightarrow> replies (cmd_unban e db) \<noteq> [AdminRequired]"
  by (simp add: cmd_unban_def say_def raise_def Let_def split: list.splits option.splits)

lemma cmd_mute_admin: "check_admin e \<Longrightarrow> replies (cmd_mute e db) \<noteq> [AdminRequired]"
  by (simp add: cmd_mute_def say_def raise_def Let_def
      split: list.splits option.splits sum.splits)

lemma cmd_unmute_admin: "check_admin e \<Longrightarrow> replies (cmd_unmute e db) \<noteq> [AdminRequired]"
  by (simp add: cmd_unmute_def say_def raise_def Let_def split: list.splits option.splits)

lemma cmd_warn_admin: "check_admin e \<Longrightarrow> replies (cmd_warn e db) \<noteq> [AdminRequired]"
  by (simp add: cmd_warn_def say_def raise_def Let_def split: list.splits option.splits)

lemma cmd_promote_admin: "check_admin e \<Longrightarrow> replies (cmd_promote e db) \<noteq> [AdminRequired]"
  by (simp add: cmd_promote_def say_def raise_def Let_def split: option.splits)

lemma cmd_demote_admin: "check_admin e \<Longrightarrow> replies (cmd_demote e db) \<noteq> [AdminRequired]"
  by (simp add: cmd_demote_def say_def raise_def Let_def split: option.splits)

lemma cmd_lockdown_admin: "check_admin e \<Longrightarrow> replies (cmd_lockdown e db) \<noteq> [AdminRequired]"
  by (simp add: cmd_lockdown_def say_def Let_def split: list.splits)

lemma passes_when_admin: "check_admin e \<Longrightarrow> replies (handle c e db) \<noteq> [AdminRequired]"
  by (cases c) (simp_all add: cmd_ban_admin cmd_unban_admin cmd_mute_admin cmd_unmute_admin
      cmd_warn_admin cmd_promote_admin cmd_demote_admin cmd_lockdown_admin)

section \<open>The role hierarchy\<close>

text \<open>
  C9, as stated, fails: the names are looked up after \<^verbatim>\<open>role.lower()\<close>, so a string other
  than the eight names can have a priority other than 1. \<open>OWNER\<close> is none of the eight
  names and has priority 4.
\<close>

theorem get_role_priority_other_string_counterexample:
  "''OWNER'' \<notin> {''owner'', ''creator'', ''superadmin'', ''administrator'', ''admin'',
                ''moderator'', ''member'', ''restricted''}
   \<and> get_role_priority ''OWNER'' = 4"
  by (simp add: role_defs)

text \<open>
  C9, amended: \<open>get_role_priority\<close> is a total function of the role string that reads it
  without regard to the case of its letters. A string whose lower-case form is owner or
  creator has priority 4; administrator, admin or superadmin, 3; moderator, 2; member, 1;
  restricted, 0; every string whose lower-case form is none of these has priority 1. So
  every priority is at least 0, and owner > administrator > moderator > member >
  restricted.
\<close>

theorem get_role_priority_table:
  "get_role_priority r =
     (if lower r \<in> {''owner'', ''creator''} then 4
      else if lower r \<in> {''administrator'', ''admin'', ''superadmin''} then 3
      else if lower r = ''moderator'' then 2
      else if lower r = ''member'' then 1
      else if lower r = ''restricted'' then 0
      else 1)
   \<and> 0 \<le> get_role_priority r
   \<and> get_role_priority ''owner'' > get_role_priority ''administrator''
   \<and> get_role_priority ''administrator'' > get_role_priority ''moderator''
   \<and> get_role_priority ''moderator'' > get_role_priority ''member''
   \<and> get_role_priority ''member'' > get_role_priority ''restricted''"
proof -
  have table: "get_role_priority r =
     (if lower r \<in> {''owner'', ''creator''} then 4
      else if lower r \<in> {''administrator'', ''admin'', ''superadmin''} then 3
      else if lower r = ''moderator'' then 2
      else if lower r = ''member'' then 1
      else if lower r = ''restricted'' then 0
      else 1)"
    by (simp add: get_role_priority_def role_map_def)
  have order: "get_role_priority ''owner'' = 4" "get_role_priority ''administrator'' = 3"
    "get_role_priority ''moderator'' = 2" "get_role_priority ''member'' = 1"
    "get_role_priority ''restricted'' = 0"
    by (simp_all add: role_defs)
  show ?thesis
    using table get_role_priority_ge_0 [of r] by (simp only: order) simp
qed

theorem get_role_priority_table_witness:
  "get_role_priority ''Admin'' = 3 \<and> get_role_priority ''janitor'' = 1"
  using get_role_priority_table [of "''Admin''"] get_role_priority_table [of "''janitor''"]
  by (simp add: lower_def lower_char_def)

section \<open>Promotion\<close>




text \<open>
  C4, as stated, fails: \<open>restricted\<close> is one of the five roles and ranks below \<open>owner\<close>,
  yet an owner's request to promote user 42 to \<open>restricted\<close> is refused, with "Invalid
  role", because \<open>restricted\<close> is not in \<^verbatim>\<open>valid_roles\<close>; the table is unchanged.
\<close>

theorem promote_restricted_invalid_counterexample:
  "''restricted'' \<in> set five_roles
   \<and> get_role_priority ''restricted'' < get_role_priority ''owner''
   \<and> cmd_promote (request ''creator'' [''42'', ''restricted''] True)
       (group ''owner'' ''member'' 0)
     = say (group ''owner'' ''member'' 0) InvalidRole"
  by (simp add: cmd_promote_def example_defs role_defs five_roles_def)

text \<open>
  C4, amended: for an actor that passes the admin check, whatever its resolved role \<open>p\<close>
  (each of the five among them), and a requested role \<open>q\<close> of the five: when \<open>q\<close> is
  \<open>restricted\<close> the request is refused as an invalid role; otherwise it is denied with
  "Cannot promote to a role >= your own role." (RankConflict) exactly when the priority of
  \<open>q\<close> is at least the priority of \<open>p\<close>, and when it is allowed the stored role of a
  target that has a row becomes \<open>q\<close> and nothing else in the table changes.
\<close>

theorem promote_rank_table:
  assumes "check_admin e" and "args e = [a, q]" and "to_int e a = Some user_id"
    and "sqlite_int user_id" and "q \<in> set five_roles"
    and "get_user_role e db = p"
    and "db (user_id, effective_chat e) = Some trow"
  shows "(q = ''restricted'' \<longrightarrow> cmd_promote e db = say db InvalidRole)
    \<and> (q \<noteq> ''restricted'' \<longrightarrow>
          (cmd_promote e db = say db CannotPromote)
            = (get_role_priority q \<ge> get_role_priority p))
    \<and> (q \<noteq> ''restricted'' \<and> get_role_priority q < get_role_priority p \<longrightarrow>
          cmd_promote e db =
            \<lparr>store = db((user_id, effective_chat e) \<mapsto> trow\<lparr>role := q\<rparr>),
             replies = [Promoted user_id q], calls = [], raised = None\<rparr>)"
  using assms five_roles_lower [of q] five_roles_valid [of q]
  by (auto simp: cmd_promote_def Let_def update_row_def say_def)

theorem promote_rank_table_witness:
  "cmd_promote (request ''creator'' [''42'', ''moderator''] True)
     (group ''administrator'' ''member'' 0)
   = \<lparr>store = group ''administrator'' ''moderator'' 0,
      replies = [Promoted 42 ''moderator''], calls = [], raised = None\<rparr>"
  using promote_rank_table [of "request ''creator'' [''42'', ''moderator''] True" "''42''"
      "''moderator''" 42 "group ''administrator'' ''member'' 0" "''administrator''"
      "member_row ''bob'' ''member'' 0"]
  by (simp add: example_defs role_defs five_roles_def)

section \<open>Demotion\<close>

text \<open>
  C10: a target whose stored role is \<open>restricted\<close> (priority 0), demoted by an actor of
  strictly higher priority, gets the stored role \<open>member\<close> (priority 1): the wanted
  priority \<open>-1\<close> matches no name of the loop, so its \<^verbatim>\<open>else\<close> gives \<^verbatim>\<open>'member'\<close>.
\<close>

theorem demote_restricted_to_member:
  assumes "check_admin e" and "args e = a # rest" and "to_int e a = Some user_id"
    and "sqlite_int user_id"
    and "db (user_id, effective_chat e) = Some trow" and "role trow = ''restricted''"
    and "get_role_priority (get_user_role e db) > get_role_priority ''restricted''"
  shows "cmd_demote e db =
       \<lparr>store = db((user_id, effective_chat e) \<mapsto> trow\<lparr>role := ''member''\<rparr>),
        replies = [Demoted user_id ''member''], calls = [], raised = None\<rparr>
     \<and> get_role_priority (role trow) = 0 \<and> get_role_priority ''member'' = 1"
proof -
  have "get_role_priority ''restricted'' = 0" "get_role_priority ''member'' = 1"
    by (simp_all add: role_defs)
  then show ?thesis
    using assms by (simp add: cmd_demote_def Let_def update_row_def)
qed

theorem demote_restricted_to_member_witness:
  "cmd_demote (request ''administrator'' [''42''] True) (group ''moderator'' ''restricted'' 0)
   = \<lparr>store = group ''moderator'' ''member'' 0, replies = [Demoted 42 ''member''],
      calls = [], raised = None\<rparr>"
  using demote_restricted_to_member [of "request ''administrator'' [''42''] True" "''42''" "[]"
      42 "group ''moderator'' ''restricted'' 0" "member_row ''bob'' ''restricted'' 0"]
  by (simp add: example_defs role_defs)

section \<open>Warnings\<close>

text \<open>
  C6: a warning of a user id that has no row in the group answers "Cannot warn user who
  is not in the database." (UnknownMember) and leaves the table as it was; a warning of a
  user with a row raises that row's count by exactly one, changes nothing else, and
  reports the new count. The sender passes the admin check and the id is one the
  database can hold.
\<close>

theorem warn_unknown_or_increment:
  assumes "check_admin e" and "args e = a # rest" and "to_int e a = Some user_id"
    and "sqlite_int user_id"
  shows "(db (user_id, effective_chat e) = None \<longrightarrow> cmd_warn e db = say db NotInDatabase)
    \<and> (\<forall>row. db (user_id, effective_chat e) = Some row \<longrightarrow>
          store (cmd_warn e db)
            = db((user_id, effective_chat e) \<mapsto> row\<lparr>warnings := warnings row + 1\<rparr>)
          \<and> hd (replies (cmd_warn e db))
            = Warned user_id (if rest \<noteq> [] then join '' '' rest else ''No reason provided'')
                (warnings row + 1)
          \<and> raised (cmd_warn e db) = None)"
  using cmd_warn_absent [where db = db, OF assms] cmd_warn_present [where db = db, OF assms]
  by simp

theorem warn_unknown_or_increment_witness:
  "cmd_warn (request ''administrator'' [''99'', ''spam''] True) (group ''member'' ''member'' 0)
     = say (group ''member'' ''member'' 0) NotInDatabase
   \<and> store (cmd_warn (request ''administrator'' [''42'', ''spam'', ''links''] True)
              (group ''member'' ''member'' 0))
     = group ''member'' ''member'' 1
   \<and> hd (replies (cmd_warn (request ''administrator'' [''42'', ''spam'', ''links''] True)
                    (group ''member'' ''member'' 0)))
     = Warned 42 ''spam links'' 1"
  using warn_unknown_or_increment [of "request ''administrator'' [''99'', ''spam''] True"
      "''99''" "[''spam'']" 99 "group ''member'' ''member'' 0"]
    warn_unknown_or_increment [of "request ''administrator'' [''42'', ''spam'', ''links''] True"
      "''42''" "[''spam'', ''links'']" 42 "group ''member'' ''member'' 0"]
  by (simp add: example_defs)

text \<open>
  C7: when a warning brings the count to 3 or more, the ban is tried, and when the ban
  call fails the handler still ends normally with the raised count stored: nothing is
  rolled back, and no "auto-banned" message is sent.
\<close>

theorem warning_kept_when_ban_fails:
  assumes "check_admin e" and "args e = a # rest" and "to_int e a = Some user_id"
    and "sqlite_int user_id" and "db (user_id, effective_chat e) = Some row"
    and "warnings row + 1 \<ge> 3"
    and "\<not> ban_chat_member e (effective_chat e) user_id"
  shows "calls (cmd_warn e db) = [BanChatMember (effective_chat e) user_id]
    \<and> AutoBanned user_id \<notin> set (replies (cmd_warn e db))
    \<and> raised (cmd_warn e db) = None
    \<and> store (cmd_warn e db) (user_id, effective_chat e)
        = Some (row\<lparr>warnings := warnings row + 1\<rparr>)"
  using cmd_warn_present [where db = db, OF assms(1-5)] assms(6,7) by simp

theorem warning_kept_when_ban_fails_witness:
  "calls (cmd_warn (request ''administrator'' [''42''] False) (group ''member'' ''member'' 2))
     = [BanChatMember (- 1001) 42]
   \<and> store (cmd_warn (request ''administrator'' [''42''] False) (group ''member'' ''member'' 2))
       (42, - 1001)
     = Some (member_row ''bob'' ''member'' 3)"
  using warning_kept_when_ban_fails [of "request ''administrator'' [''42''] False" "''42''" "[]"
      42 "group ''member'' ''member'' 2" "member_row ''bob'' ''member'' 2"]
  by (simp add: example_defs)

text \<open>
  C2, as stated, fails: four warnings of user 42, who starts with no warning. The ban is
  tried at the third warning and again at the fourth, so it fires twice, not once.
\<close>

theorem escalation_repeats_counterexample:
  "map calls (warn_seq (replicate 4 (request ''administrator'' [''42''] True))
                (group ''member'' ''member'' 0))
   = [[], [], [BanChatMember (- 1001) 42], [BanChatMember (- 1001) 42]]"
  by (simp add: numeral_eq_Suc cmd_warn_def example_defs Let_def)

text \<open>
  C2, amended: for a membership with no warning, warned again and again, the count after
  the \<open>n\<close>-th warning is \<open>n\<close>, and the automatic ban is tried at every warning whose
  count is 3 or more: not at counts 1 and 2, at count 3, and again at count 4 and at
  every later one. (The outcomes are numbered from 0, so outcome \<open>i\<close> is warning
  \<open>i + 1\<close>.)
\<close>

theorem escalation_from_third_warning:
  assumes "\<forall>e \<in> set es. warns_of chat_id user_id e"
    and "sqlite_int user_id" and "db (user_id, chat_id) = Some row" and "warnings row = 0"
    and "i < length es"
  shows "map_option warnings (store (warn_seq es db ! i) (user_id, chat_id)) = Some (int i + 1)
    \<and> calls (warn_seq es db ! i)
        = (if int i + 1 \<ge> 3 then [BanChatMember chat_id user_id] else [])"
  using warn_seq_nth [where db = db, OF assms(1-3) assms(5)] assms(4) by simp

theorem escalation_from_third_warning_witness:
  "calls (warn_seq (replicate 5 (request ''administrator'' [''42''] False))
            (group ''member'' ''member'' 0) ! 1) = []
   \<and> calls (warn_seq (replicate 5 (request ''administrator'' [''42''] False))
            (group ''member'' ''member'' 0) ! 4) = [BanChatMember (- 1001) 42]"
  using escalation_from_third_warning [of "replicate 5 (request ''administrator'' [''42''] False)"
      "- 1001" 42 "group ''member'' ''member'' 0" "member_row ''bob'' ''member'' 0" 1]
    escalation_from_third_warning [of "replicate 5 (request ''administrator'' [''42''] False)"
      "- 1001" 42 "group ''member'' ''member'' 0" "member_row ''bob'' ''member'' 0" 4]
  by (simp add: warns_of_def example_defs)

section \<open>The admin check\<close>

text \<open>
  C3, as stated, fails in both directions, here for the ban command. A sender whose
  stored role is \<open>owner\<close> but whom the platform reports as \<open>member\<close> is denied with
  "Admin privileges required."; a sender whose stored role is \<open>member\<close> but whom the
  platform reports as \<open>administrator\<close> passes, and the ban is carried out.
\<close>

theorem admin_check_ignores_stored_role_counterexample:
  "get_role_priority (get_user_role (request ''member'' [''42''] True)
                        (group ''owner'' ''member'' 0))
     \<ge> get_role_priority ''administrator''
   \<and> handle Ban (request ''member'' [''42''] True) (group ''owner'' ''member'' 0)
     = say (group ''owner'' ''member'' 0) AdminRequired
   \<and> get_role_priority (get_user_role (request ''administrator'' [''42''] True)
                          (group ''member'' ''member'' 0))
     < get_role_priority ''administrator''
   \<and> handle Ban (request ''administrator'' [''42''] True) (group ''member'' ''member'' 0)
     = \<lparr>store = group ''member'' ''member'' 0, replies = [Banned 42 ''No reason given''],
        calls = [BanChatMember (- 1001) 42], raised = None\<rparr>"
  by (simp add: cmd_ban_def example_defs role_defs)

text \<open>
  C3, amended: for every moderation command (ban, unban, mute, unmute, warn, promote,
  demote, lockdown) the administrative-privilege decision is made on the status the
  platform reports for the sender when the command is handled, not on the stored role.
  The command is denied with "Admin privileges required." (InsufficientPrivilege), with
  the table unchanged and no bot call made, exactly when that status is neither
  \<open>administrator\<close> nor \<open>creator\<close> (or the platform call fails); the table of users
  plays no part in the decision.
\<close>

theorem admin_check_on_platform_status:
  "(handle c e db = say db AdminRequired)
     = (get_chat_member e 0 (effective_chat e) (effective_user e)
          \<notin> {Some ''administrator'', Some ''creator''})"
proof (cases "check_admin e")
  case True
  then have "handle c e db \<noteq> say db AdminRequired"
    using passes_when_admin [of e c db] by (auto simp: say_def)
  then show ?thesis
    using True by (simp only: check_admin_iff) simp
next
  case False
  then show ?thesis
    using denied_when_not_admin [of e c db] by (simp only: check_admin_iff) simp
qed

theorem admin_check_on_platform_status_witness:
  "handle Warn (request ''member'' [''42''] True) (group ''owner'' ''member'' 0)
     = say (group ''owner'' ''member'' 0) AdminRequired
   \<and> handle Demote (request ''creator'' [''42''] True) (group ''member'' ''member'' 0)
     \<noteq> say (group ''member'' ''member'' 0) AdminRequired"
  using admin_check_on_platform_status [of Warn "request ''member'' [''42''] True"
      "group ''owner'' ''member'' 0"]
    admin_check_on_platform_status [of Demote "request ''creator'' [''42''] True"
      "group ''member'' ''member'' 0"]
  by (simp add: request_def)

section \<open>Mutes\<close>

text \<open>
  C5, as stated, fails: an administrator mutes user 42 for 10 minutes. The program keeps
  no record of the mute, so \<open>spec_isMuted\<close> on what it has stored is false right after
  the command, when the platform call fails (first two lines) and when it succeeds.
\<close>

theorem mute_no_local_record_counterexample:
  "cmd_mute (request ''administrator'' [''42'', ''10''] False)
     (group ''administrator'' ''member'' 0)
   = \<lparr>store = group ''administrator'' ''member'' 0, replies = [FailedMute],
      calls = [RestrictChatMember (- 1001) 42 False (Some 63900000600000000)],
      raised = None\<rparr>
   \<and> \<not> spec_isMuted
         (store (cmd_mute (request ''administrator'' [''42'', ''10''] False)
                   (group ''administrator'' ''member'' 0)))
         (- 1001) 42 (now (request ''administrator'' [''42'', ''10''] False))
   \<and> \<not> spec_isMuted
         (store (cmd_mute (request ''administrator'' [''42'', ''10''] True)
                   (group ''administrator'' ''member'' 0)))
         (- 1001) 42 (now (request ''administrator'' [''42'', ''10''] True))"
  by (simp add: cmd_mute_def example_defs spec_isMuted_def spec_user_mutes_def)

text \<open>
  C5, amended: a mute of 10 minutes by an administrator (the minutes given, or left out
  for the default) stores nothing: the table is the same after the command, whether the
  platform call succeeds or fails. The mute exists only as the restriction asked of the
  platform, until \<open>now + 10\<close> minutes; when that call fails the sender is told "Failed
  to mute user" and there is nothing to roll back.
\<close>

theorem mute_is_external_only:
  assumes "check_admin e" and "to_int e a = Some user_id"
    and "args e = [a] \<or> (args e = [a, m] \<and> to_int e m = Some 10)"
    and "0 \<le> now e + 600000000" and "now e + 600000000 \<le> datetime_max"
  shows "store (cmd_mute e db) = db
    \<and> calls (cmd_mute e db)
        = [RestrictChatMember (effective_chat e) user_id False (Some (now e + 600000000))]
    \<and> replies (cmd_mute e db)
        = [if restrict_chat_member e (effective_chat e) user_id False
                (Some (now e + 600000000))
           then Muted user_id 10 else FailedMute]
    \<and> raised (cmd_mute e db) = None"
proof -
  from assms(3) obtain rest where rest: "args e = a # rest"
      "(case rest of [] \<Rightarrow> Some 10 | m # _ \<Rightarrow> to_int e m) = Some 10"
    by auto
  show ?thesis
    using cmd_mute_run [of e a rest user_id 10 db] assms(1,2,4,5) rest by simp
qed

theorem mute_is_external_only_witness:
  "store (cmd_mute (request ''administrator'' [''42''] False)
            (group ''administrator'' ''member'' 0))
     = group ''administrator'' ''member'' 0
   \<and> replies (cmd_mute (request ''administrator'' [''42''] False)
                (group ''administrator'' ''member'' 0))
     = [FailedMute]
   \<and> replies (cmd_mute (request ''administrator'' [''42'', ''10''] True)
                (group ''administrator'' ''member'' 0))
     = [Muted 42 10]"
  using mute_is_external_only [of "request ''administrator'' [''42''] False" "''42''" 42
      "''10''" "group ''administrator'' ''member'' 0"]
    mute_is_external_only [of "request ''administrator'' [''42'', ''10''] True" "''42''" 42
      "''10''" "group ''administrator'' ''member'' 0"]
  by (simp add: example_defs)

text \<open>
  C8, as stated, fails: a mute of \<open>-5\<close> minutes and a mute of 0 minutes are not refused.
  The platform is asked for a restriction until 5 minutes ago, or until now, and the
  sender is told "Muted user 42 for -5 minutes.", or "for 0 minutes."
\<close>

theorem mute_nonpositive_accepted_counterexample:
  "cmd_mute (request ''administrator'' [''42'', ''-5''] True)
     (group ''administrator'' ''member'' 0)
   = \<lparr>store = group ''administrator'' ''member'' 0, replies = [Muted 42 (- 5)],
      calls = [RestrictChatMember (- 1001) 42 False (Some 63899999700000000)],
      raised = None\<rparr>
   \<and> cmd_mute (request ''administrator'' [''42'', ''0''] True)
       (group ''administrator'' ''member'' 0)
   = \<lparr>store = group ''administrator'' ''member'' 0, replies = [Muted 42 0],
      calls = [RestrictChatMember (- 1001) 42 False (Some 63900000000000000)],
      raised = None\<rparr>"
  by (simp add: cmd_mute_def example_defs)

text \<open>
  C8, amended: the mute command does not look at the sign of the duration. For every
  integer duration, positive or not, for which \<open>now + duration\<close> minutes is a date that
  exists, it asks the platform for a restriction until \<open>now + duration\<close> minutes and
  answers "Muted user ..." when the call succeeds, "Failed to mute user" when it fails;
  it never answers with an argument error and stores no record of its own.
\<close>

theorem mute_any_duration:
  assumes "check_admin e" and "args e = [a, m]" and "to_int e a = Some user_id"
    and "to_int e m = Some minutes"
    and "0 \<le> now e + minutes * 60000000" and "now e + minutes * 60000000 \<le> datetime_max"
  shows "cmd_mute e db =
     \<lparr>store = db,
      replies = [if restrict_chat_member e (effective_chat e) user_id False
                      (Some (now e + minutes * 60000000))
                 then Muted user_id minutes else FailedMute],
      calls = [RestrictChatMember (effective_chat e) user_id False
                 (Some (now e + minutes * 60000000))],
      raised = None\<rparr>"
  using cmd_mute_run [of e a "[m]" user_id minutes db] assms by simp

theorem mute_any_duration_witness:
  "cmd_mute (request ''administrator'' [''42'', ''-5''] False)
     (group ''administrator'' ''member'' 0)
   = \<lparr>store = group ''administrator'' ''member'' 0, replies = [FailedMute],
      calls = [RestrictChatMember (- 1001) 42 False (Some 63899999700000000)],
      raised = None\<rparr>
   \<and> cmd_mute (request ''administrator'' [''42'', ''525600''] True)
       (group ''administrator'' ''member'' 0)
   = \<lparr>store = group ''administrator'' ''member'' 0, replies = [Muted 42 525600],
      calls = [RestrictChatMember (- 1001) 42 False (Some 63931536000000000)],
      raised = None\<rparr>"
  using mute_any_duration [of "request ''administrator'' [''42'', ''-5''] False" "''42''"
      "''-5''" 42 "- 5" "group ''administrator'' ''member'' 0"]
    mute_any_duration [of "request ''administrator'' [''42'', ''525600''] True" "''42''"
      "''525600''" 42 525600 "group ''administrator'' ''member'' 0"]
  by (simp add: example_defs)

end
